theory Spec2Isabelle
  imports Main "HOL-Library.Word"
begin

section \<open>The Fetch operation of CyberChef (src/core/operations/Fetch.mjs)\<close>

text \<open>
  The operation \<^verbatim>\<open>Fetch.run(input, args)\<close> is embedded as a pure function. Its effects are
  made explicit: the two fields of the operation object that it assigns are threaded through
  as a record, every call it makes to the platform (\<^verbatim>\<open>fetch\<close>, \<^verbatim>\<open>response.arrayBuffer\<close>,
  \<^verbatim>\<open>response.text\<close>) is appended to a log, and every \<^verbatim>\<open>throw\<close> and every rejected promise is
  the left injection of a sum. The promise returned by the \<^verbatim>\<open>async\<close> function is identified
  with its settled outcome.
\<close>

subsection \<open>JavaScript strings\<close>

text \<open>
  A JavaScript string is a sequence of 16-bit code units. A literal of the source is written
  \<open>js ''...''\<close>.
\<close>

type_synonym jsstring = "16 word list"

definition js :: "string \<Rightarrow> jsstring" where
  "js s = map of_char s"

text \<open>
  \<^verbatim>\<open>String.prototype.trim\<close> removes from both ends the code units that ECMAScript calls
  WhiteSpace (TAB, VT, FF, the byte order mark and the Unicode category Zs) or
  LineTerminator (LF, CR, LS, PS).
\<close>

definition isWhiteSpace :: "16 word \<Rightarrow> bool" where
  "isWhiteSpace c \<longleftrightarrow>
     c = 0x0009 \<or> c = 0x000A \<or> c = 0x000B \<or> c = 0x000C \<or> c = 0x000D \<or> c = 0x0020 \<or>
     c = 0x00A0 \<or> c = 0x1680 \<or> (0x2000 \<le> c \<and> c \<le> 0x200A) \<or> c = 0x2028 \<or> c = 0x2029 \<or>
     c = 0x202F \<or> c = 0x205F \<or> c = 0x3000 \<or> c = 0xFEFF"

definition trim :: "jsstring \<Rightarrow> jsstring" where
  "trim s = rev (dropWhile isWhiteSpace (rev (dropWhile isWhiteSpace s)))"

text \<open>\<^verbatim>\<open>s.indexOf(c)\<close> for a one-unit search string: the first index, or -1.\<close>

fun indexOf :: "jsstring \<Rightarrow> 16 word \<Rightarrow> int" where
  "indexOf [] c = - 1"
| "indexOf (x # xs) c =
     (if x = c then 0 else (let i = indexOf xs c in if i < 0 then - 1 else i + 1))"

text \<open>
  \<^verbatim>\<open>s.slice(start, end)\<close>: a negative index counts from the end, and both indices are
  clamped to the string.
\<close>

definition clamp_index :: "jsstring \<Rightarrow> int \<Rightarrow> nat" where
  "clamp_index s i =
     (let len = int (length s)
      in nat (if i < 0 then max (len + i) 0 else min i len))"

definition slice_str :: "jsstring \<Rightarrow> int \<Rightarrow> int \<Rightarrow> jsstring" where
  "slice_str s start end =
     (let from = clamp_index s start; to = clamp_index s end
      in take (to - from) (drop from s))"

definition slice_from :: "jsstring \<Rightarrow> int \<Rightarrow> jsstring" where
  "slice_from s start = slice_str s start (int (length s))"

text \<open>
  \<^verbatim>\<open>s.split(/\r?\n/)\<close>: the string is cut at every LF, and a CR right before the LF belongs
  to the separator. The result always has at least one piece.
\<close>

definition CR :: "16 word" where "CR = 0x000D"
definition LF :: "16 word" where "LF = 0x000A"
definition colon :: "16 word" where "colon = 0x003A"

fun cons_first :: "16 word \<Rightarrow> jsstring list \<Rightarrow> jsstring list" where
  "cons_first c [] = [[c]]"
| "cons_first c (l # ls) = (c # l) # ls"

fun split_lines :: "jsstring \<Rightarrow> jsstring list" where
  "split_lines [] = [[]]"
| "split_lines [c] = (if c = LF then [[], []] else [[c]])"
| "split_lines (c # d # cs) =
     (if c = CR \<and> d = LF then [] # split_lines cs
      else if c = LF then [] # split_lines (d # cs)
      else cons_first c (split_lines (d # cs)))"

subsection \<open>Thrown values\<close>

text \<open>
  \<open>OperationError m\<close> is \<^verbatim>\<open>new OperationError(m)\<close>. \<open>Foreign d\<close> is any value thrown by the
  platform (a \<^verbatim>\<open>TypeError\<close>, a \<^verbatim>\<open>DOMException\<close>), where \<open>d\<close> is what its \<^verbatim>\<open>toString()\<close>
  returns.
\<close>

datatype thrown = OperationError jsstring | Foreign jsstring

subsection \<open>The platform: Headers, Response, fetch\<close>

text \<open>
  \<^verbatim>\<open>Headers\<close> is the class of the Fetch standard. A header list is a list of name-value
  pairs. \<^verbatim>\<open>headers.set(name, value)\<close> on an object made by \<^verbatim>\<open>new Headers()\<close> strips HTTP
  whitespace from both ends of the value, throws a \<^verbatim>\<open>TypeError\<close> unless the name is an HTTP
  token and the value a header value (a byte string without NUL, CR and LF; the characters
  of a token are bytes anyway), and then sets the pair in the list: the first header whose
  name matches byte-case-insensitively takes the new value and the other matching ones are
  removed, or the pair is appended when none matches.
\<close>

type_synonym Headers = "(jsstring \<times> jsstring) list"

definition isAlpha :: "16 word \<Rightarrow> bool" where
  "isAlpha c \<longleftrightarrow> (0x41 \<le> c \<and> c \<le> 0x5A) \<or> (0x61 \<le> c \<and> c \<le> 0x7A)"

definition isDigit :: "16 word \<Rightarrow> bool" where
  "isDigit c \<longleftrightarrow> 0x30 \<le> c \<and> c \<le> 0x39"

definition isTchar :: "16 word \<Rightarrow> bool" where
  "isTchar c \<longleftrightarrow> isAlpha c \<or> isDigit c \<or> c \<in> set (js ''!#$%&*+-.^_`|~'') \<or> c = 0x27"

definition isHeaderName :: "jsstring \<Rightarrow> bool" where
  "isHeaderName name \<longleftrightarrow> name \<noteq> [] \<and> list_all isTchar name"

definition isHTTPWhitespace :: "16 word \<Rightarrow> bool" where
  "isHTTPWhitespace c \<longleftrightarrow> c = 0x09 \<or> c = 0x0A \<or> c = 0x0D \<or> c = 0x20"

definition normalize_value :: "jsstring \<Rightarrow> jsstring" where
  "normalize_value v = rev (dropWhile isHTTPWhitespace (rev (dropWhile isHTTPWhitespace v)))"

definition isHeaderValue :: "jsstring \<Rightarrow> bool" where
  "isHeaderValue v \<longleftrightarrow> list_all (\<lambda>c. c \<le> 0xFF \<and> c \<noteq> 0x00 \<and> c \<noteq> 0x0A \<and> c \<noteq> 0x0D) v"

definition byteLowercase :: "jsstring \<Rightarrow> jsstring" where
  "byteLowercase s = map (\<lambda>c. if 0x41 \<le> c \<and> c \<le> 0x5A then c + 0x20 else c) s"

definition sameName :: "jsstring \<Rightarrow> jsstring \<Rightarrow> bool" where
  "sameName a b \<longleftrightarrow> byteLowercase a = byteLowercase b"

fun header_list_set :: "Headers \<Rightarrow> jsstring \<Rightarrow> jsstring \<Rightarrow> Headers" where
  "header_list_set [] name v = [(name, v)]"
| "header_list_set ((k, w) # hs) name v =
     (if sameName k name then (k, v) # filter (\<lambda>(k', w'). \<not> sameName k' name) hs
      else (k, w) # header_list_set hs name v)"

text \<open>\<^verbatim>\<open>headers.get(name)\<close>: the value of the header of that name, if there is one.\<close>

fun header_list_get :: "Headers \<Rightarrow> jsstring \<Rightarrow> jsstring option" where
  "header_list_get [] name = None"
| "header_list_get ((k, w) # hs) name =
     (if sameName k name then Some w else header_list_get hs name)"

text \<open>The request configuration object built at lines 109 to 118.\<close>

record config =
  "method" :: jsstring
  headers :: Headers
  cache :: jsstring
  body :: "jsstring option"

text \<open>
  A \<^verbatim>\<open>Response\<close>, as far as the operation looks at it: the status, the type, and what
  reading the body gives, either a rejection or the bytes (\<^verbatim>\<open>arrayBuffer\<close>), respectively
  the decoded text (\<^verbatim>\<open>text\<close>).
\<close>

record response =
  status :: int
  type :: jsstring
  arrayBuffer :: "thrown + 8 word list"
  text' :: "thrown + jsstring"

text \<open>
  The environment of a call. \<open>fetch\<close> is \<open>None\<close> where \<^verbatim>\<open>typeof fetch !== "function"\<close>,
  and otherwise the outcome of \<^verbatim>\<open>await fetch(url, config)\<close>. \<open>OperationError_toString m\<close> is
  what \<^verbatim>\<open>toString()\<close> returns on \<^verbatim>\<open>new OperationError(m)\<close>; the class is imported from
  \<^verbatim>\<open>../errors/OperationError.mjs\<close>, whose source is not available, so it is a
  parameter. \<open>Headers_TypeError name value\<close> describes the \<^verbatim>\<open>TypeError\<close> of \<^verbatim>\<open>Headers.set\<close>,
  whose wording the standard leaves to the implementation.
\<close>

record env =
  fetch :: "(jsstring \<Rightarrow> config \<Rightarrow> thrown + response) option"
  OperationError_toString :: "jsstring \<Rightarrow> jsstring"
  Headers_TypeError :: "jsstring \<Rightarrow> jsstring \<Rightarrow> jsstring"

definition Headers_set :: "env \<Rightarrow> Headers \<Rightarrow> jsstring \<Rightarrow> jsstring \<Rightarrow> thrown + Headers" where
  "Headers_set e hs name v =
     (let v' = normalize_value v
      in if isHeaderName name \<and> isHeaderValue v'
         then Inr (header_list_set hs name v')
         else Inl (Foreign (Headers_TypeError e name v)))"

definition toString :: "env \<Rightarrow> thrown \<Rightarrow> jsstring" where
  "toString e err = (case err of OperationError m \<Rightarrow> OperationError_toString e m | Foreign d \<Rightarrow> d)"

subsection \<open>The operation object\<close>

text \<open>
  Modelled from the spec: the base class \<^verbatim>\<open>Operation\<close> (\<^verbatim>\<open>../Operation.mjs\<close>), whose source
  is not available. The spec describes the operation's declared output type and presentation
  type as two mutable fields holding the type's name, and so they are here.
\<close>

record Operation =
  outputType :: jsstring
  presentType :: jsstring

text \<open>What \<^verbatim>\<open>run\<close> resolves to: a string, or an array of numbers.\<close>

datatype result = Str jsstring | Bytes "nat list"

text \<open>The calls to the platform, in the order they are made.\<close>

datatype call = Call_fetch jsstring config | Call_arrayBuffer | Call_text

type_synonym outcome = "(thrown + result) \<times> Operation \<times> call list"

subsection \<open>Fetch.run\<close>

text \<open>The callback of \<^verbatim>\<open>forEach\<close> at lines 92 to 107, on the header set built so far.\<close>

definition parse_line :: "env \<Rightarrow> Headers \<Rightarrow> jsstring \<Rightarrow> thrown + Headers" where
  "parse_line e hs line0 =
     (let line = trim line0
      in if length line = 0 then Inr hs
         else
           let colonIndex = indexOf line colon
           in if colonIndex < 0
              then Inl (OperationError (js ''Could not parse header in line: '' @ line))
              else
                let name = trim (slice_str line 0 colonIndex);
                    val = trim (slice_from line (colonIndex + 1))
                in if length name = 0
                   then Inl (OperationError (js ''Could not parse header in line: '' @ line))
                   else Headers_set e hs name val)"

fun forEach :: "env \<Rightarrow> Headers \<Rightarrow> jsstring list \<Rightarrow> thrown + Headers" where
  "forEach e hs [] = Inr hs"
| "forEach e hs (line # lines) =
     (case parse_line e hs line of
        Inl err \<Rightarrow> Inl err
      | Inr hs' \<Rightarrow> forEach e hs' lines)"

definition parse_headers :: "env \<Rightarrow> jsstring \<Rightarrow> thrown + Headers" where
  "parse_headers e headersText = forEach e [] (split_lines headersText)"

text \<open>Lines 109 to 118.\<close>

definition build_config :: "jsstring \<Rightarrow> Headers \<Rightarrow> jsstring \<Rightarrow> config" where
  "build_config meth hs payload =
     (let config = \<lparr>method = meth, headers = hs, cache = js ''no-cache'', body = None\<rparr>;
          hasPayload = (length payload > 0)
      in if meth \<noteq> js ''GET'' \<and> meth \<noteq> js ''HEAD'' \<and> hasPayload
         then config\<lparr>body := Some payload\<rparr>
         else config)"

text \<open>The body of the \<^verbatim>\<open>try\<close> block, lines 121 to 137.\<close>

definition try_block ::
  "(jsstring \<Rightarrow> config \<Rightarrow> thrown + response) \<Rightarrow> Operation \<Rightarrow> jsstring \<Rightarrow> config \<Rightarrow> jsstring
     \<Rightarrow> outcome" where
  "try_block fetch_fn this url config returnType =
     (case fetch_fn url config of
        Inl err \<Rightarrow> (Inl err, this, [Call_fetch url config])
      | Inr response \<Rightarrow>
          if status response = 0 \<and> type response = js ''opaque''
          then (Inl (OperationError
                  (js ''Error: Null response. Try setting the connection mode to CORS.'')),
                this, [Call_fetch url config])
          else
            let wantsBytes = (returnType = js ''Bytes'');
                selectedType = (if wantsBytes then js ''byteArray'' else js ''string'');
                this1 = this\<lparr>outputType := selectedType\<rparr>;
                this2 = this1\<lparr>presentType := selectedType\<rparr>
            in if wantsBytes
               then (case arrayBuffer response of
                       Inl err \<Rightarrow> (Inl err, this2, [Call_fetch url config, Call_arrayBuffer])
                     | Inr buffer \<Rightarrow>
                         (Inr (Bytes (map unat buffer)), this2,
                          [Call_fetch url config, Call_arrayBuffer]))
               else (case text' response of
                       Inl err \<Rightarrow> (Inl err, this2, [Call_fetch url config, Call_text])
                     | Inr t \<Rightarrow> (Inr (Str t), this2, [Call_fetch url config, Call_text])))"

text \<open>The text appended by the \<^verbatim>\<open>catch\<close> block, lines 140 to 143.\<close>

definition hint :: jsstring where
  "hint = js ''\<newline>\<newline>This error could be caused by one of the following:\<newline>''
        @ js '' - An invalid URL\<newline>''
        @ js '' - Making a request to an insecure resource (HTTP) from a secure source (HTTPS)\<newline>''
        @ js '' - Making a cross-origin request to a server which does not support CORS''"

text \<open>The \<^verbatim>\<open>catch\<close> block, lines 138 to 144: whatever the \<^verbatim>\<open>try\<close> block threw is replaced.\<close>

definition catch_block :: "env \<Rightarrow> outcome \<Rightarrow> outcome" where
  "catch_block e out =
     (case out of
        (Inl err, this, calls) \<Rightarrow> (Inl (OperationError (toString e err @ hint)), this, calls)
      | (Inr v, this, calls) \<Rightarrow> (Inr v, this, calls))"

text \<open>
  \<^verbatim>\<open>run(input, args)\<close>, lines 79 to 145. \<open>input\<close> is \<open>None\<close> for \<^verbatim>\<open>null\<close> or \<^verbatim>\<open>undefined\<close>,
  which \<^verbatim>\<open>input || ""\<close> replaces by the empty string; \<open>targetUrl\<close> is line 81. \<open>args\<close> is
  the array \<^verbatim>\<open>[method, payload, headersText, returnType]\<close>.
\<close>

definition targetUrl :: "jsstring option \<Rightarrow> jsstring" where
  "targetUrl input = trim (case input of None \<Rightarrow> [] | Some s \<Rightarrow> s)"

definition run ::
  "env \<Rightarrow> Operation \<Rightarrow> jsstring option \<Rightarrow> jsstring \<times> jsstring \<times> jsstring \<times> jsstring \<Rightarrow> outcome" where
  "run e this input args =
     (case args of (meth, payload, headersText, returnType) \<Rightarrow>
        let url = targetUrl input
        in if length url = 0 then (Inr (Str []), this, [])
           else
             (case fetch e of
                None \<Rightarrow>
                  (Inl (OperationError (js ''Fetch API is not available in this environment.'')),
                   this, [])
              | Some fetch_fn \<Rightarrow>
                  (case parse_headers e headersText of
                     Inl err \<Rightarrow> (Inl err, this, [])
                   | Inr hs \<Rightarrow>
                       catch_block e
                         (try_block fetch_fn this url (build_config meth hs payload)
                            returnType))))"

subsection \<open>Header lines as the specification describes them\<close>

text \<open>
  The specification describes a header line by its form \<^verbatim>\<open>name: value\<close>: the name is what
  stands before the first colon, trimmed, and the value is everything after the first colon,
  trimmed. These definitions follow that description; the function \<open>parse_line\<close> above
  follows the code, and the two are compared below.
\<close>

definition header_name :: "jsstring \<Rightarrow> jsstring" where
  "header_name line = trim (takeWhile (\<lambda>c. c \<noteq> colon) (trim line))"

definition header_value :: "jsstring \<Rightarrow> jsstring" where
  "header_value line = trim (tl (dropWhile (\<lambda>c. c \<noteq> colon) (trim line)))"

text \<open>
  A line is well formed, in the words of the specification, when it is blank after trimming,
  or has a colon and a name that is not empty.
\<close>

definition well_formed_line :: "jsstring \<Rightarrow> bool" where
  "well_formed_line line \<longleftrightarrow>
     trim line = [] \<or> (colon \<in> set (trim line) \<and> header_name line \<noteq> [])"

text \<open>The value of the last line that is not blank and carries the name \<open>n\<close>, if any.\<close>

definition last_value :: "jsstring list \<Rightarrow> jsstring \<Rightarrow> jsstring option" where
  "last_value lines n =
     (case filter (\<lambda>l. trim l \<noteq> [] \<and> sameName (header_name l) n) lines of
        [] \<Rightarrow> None
      | l # ls \<Rightarrow> Some (header_value (last (l # ls))))"

subsection \<open>Header lines that the platform accepts\<close>

text \<open>
  This condition is not in the specification. It is the one under which \<open>Headers_set\<close>, the
  \<^verbatim>\<open>headers.set(name, value)\<close> of line 106, does not throw on the name and value of a line
  that is not blank: the name is an HTTP token and the value an HTTP header value.
\<close>

definition accepted_line :: "jsstring \<Rightarrow> bool" where
  "accepted_line line \<longleftrightarrow>
     trim line = [] \<or> (isHeaderName (header_name line) \<and> isHeaderValue (header_value line))"

subsection \<open>Example environments\<close>

text \<open>
  A transport that settles every request in the same way, an environment around it in which
  \<^verbatim>\<open>OperationError\<close> inherits \<^verbatim>\<open>Error.prototype.toString\<close> under the name \<^verbatim>\<open>Error\<close>, an
  operation object as the constructor leaves it, and three responses.
\<close>

definition example_fetch :: "thrown + response \<Rightarrow> jsstring \<Rightarrow> config \<Rightarrow> thrown + response" where
  "example_fetch r url c = r"

definition example_toString :: "jsstring \<Rightarrow> jsstring" where
  "example_toString m = js ''Error: '' @ m"

definition example_TypeError :: "jsstring \<Rightarrow> jsstring \<Rightarrow> jsstring" where
  "example_TypeError name v = js ''TypeError: Invalid name''"

definition example_env :: "(jsstring \<Rightarrow> config \<Rightarrow> thrown + response) option \<Rightarrow> env" where
  "example_env f =
     \<lparr>fetch = f, OperationError_toString = example_toString,
      Headers_TypeError = example_TypeError\<rparr>"

definition example_this :: Operation where
  "example_this = \<lparr>outputType = js ''string'', presentType = js ''string''\<rparr>"

definition example_ok :: response where
  "example_ok =
     \<lparr>status = 200, type = js ''basic'', arrayBuffer = Inr [104, 105], text' = Inr (js ''hi'')\<rparr>"

definition example_opaque :: response where
  "example_opaque = \<lparr>status = 0, type = js ''opaque'', arrayBuffer = Inr [], text' = Inr []\<rparr>"

definition example_unreadable :: response where
  "example_unreadable =
     \<lparr>status = 200, type = js ''basic'',
      arrayBuffer = Inl (Foreign (js ''TypeError: Failed to fetch'')),
      text' = Inl (Foreign (js ''TypeError: Failed to fetch''))\<rparr>"

section \<open>Properties of the string and header functions\<close>

lemma js_append: "js (a @ b) = js a @ js b"
  by (simp add: js_def)

lemma strip_all: "\<forall>x\<in>set s. P x \<Longrightarrow> rev (dropWhile P (rev (dropWhile P s))) = []"
proof -
  assume "\<forall>x\<in>set s. P x"
  then have "dropWhile P s = []" by (induction s) auto
  then show ?thesis by (simp only: rev.simps(1) dropWhile.simps(1))
qed

lemma last_dropWhile_keep: "dropWhile P xs \<noteq> [] \<Longrightarrow> last (dropWhile P xs) = last xs"
proof -
  assume ne: "dropWhile P xs \<noteq> []"
  have "last (takeWhile P xs @ dropWhile P xs) = last (dropWhile P xs)"
    using ne by (rule last_appendR)
  then show ?thesis by simp
qed

lemma strip_ends:
  assumes "rev (dropWhile P (rev (dropWhile P s))) \<noteq> []"
  shows "\<not> P (hd (rev (dropWhile P (rev (dropWhile P s)))))"
    and "\<not> P (last (rev (dropWhile P (rev (dropWhile P s)))))"
proof -
  let ?d = "dropWhile P s"
  let ?r = "dropWhile P (rev ?d)"
  from assms have r: "?r \<noteq> []" by simp
  then have d: "?d \<noteq> []" by (cases "?d") auto
  from r have nr: "\<not> P (hd ?r)" by (rule hd_dropWhile)
  from d have nd: "\<not> P (hd ?d)" by (rule hd_dropWhile)
  show "\<not> P (last (rev ?r))" using r nr by (simp add: last_rev)
  have "last ?r = last (rev ?d)" using r by (rule last_dropWhile_keep)
  also have "\<dots> = hd ?d" using d by (simp add: last_rev)
  finally have "last ?r = hd ?d" .
  moreover have "hd (rev ?r) = last ?r" using r by (simp add: hd_rev)
  ultimately show "\<not> P (hd (rev ?r))" using nd by simp
qed

lemma strip_id:
  assumes "s \<noteq> [] \<Longrightarrow> \<not> P (hd s) \<and> \<not> P (last s)"
  shows "rev (dropWhile P (rev (dropWhile P s))) = s"
proof (cases s)
  case Nil
  then show ?thesis by simp
next
  case (Cons a t)
  with assms have h: "\<not> P (hd s)" and l: "\<not> P (last s)" by auto
  from h Cons have 1: "dropWhile P s = s" by simp
  have ne: "s \<noteq> []" using Cons by simp
  then have "hd (rev s) = last s" by (simp add: hd_rev)
  with l have "\<not> P (hd (rev s))" by simp
  then have 2: "dropWhile P (rev s) = rev s" using ne by (cases "rev s") auto
  show ?thesis by (simp add: 1 2)
qed

lemma trim_all_ws: "list_all isWhiteSpace s \<Longrightarrow> trim s = []"
  unfolding trim_def by (rule strip_all) (simp add: list_all_iff)

lemma trim_Nil [simp]: "trim [] = []"
  by (simp add: trim_def)

lemma trim_ends:
  "trim s \<noteq> [] \<Longrightarrow> \<not> isWhiteSpace (hd (trim s)) \<and> \<not> isWhiteSpace (last (trim s))"
  unfolding trim_def using strip_ends[of isWhiteSpace s] by blast

lemma HTTPWhitespace_WhiteSpace: "isHTTPWhitespace c \<Longrightarrow> isWhiteSpace c"
  by (auto simp: isHTTPWhitespace_def isWhiteSpace_def)

lemma normalize_trim: "normalize_value (trim s) = trim s"
  unfolding normalize_value_def
  by (rule strip_id) (use trim_ends[of s] HTTPWhitespace_WhiteSpace in blast)

lemma trim_trim: "trim (trim s) = trim s"
  unfolding trim_def[of "trim s"]
  by (rule strip_id) (use trim_ends[of s] in blast)

lemma indexOf_ge: "- 1 \<le> indexOf s c"
  by (induction s) (auto simp: Let_def)

lemma indexOf_neg_iff: "indexOf s c < 0 \<longleftrightarrow> c \<notin> set s"
proof (induction s)
  case Nil
  then show ?case by simp
next
  case (Cons a s)
  then show ?case using indexOf_ge[of s c] by (auto simp: Let_def)
qed

lemma indexOf_takeWhile: "c \<in> set s \<Longrightarrow> indexOf s c = int (length (takeWhile (\<lambda>x. x \<noteq> c) s))"
  by (induction s) (auto simp: Let_def indexOf_neg_iff)

lemma slice_before:
  assumes "c \<in> set s"
  shows "slice_str s 0 (indexOf s c) = takeWhile (\<lambda>x. x \<noteq> c) s"
proof -
  have len: "length (takeWhile (\<lambda>x. x \<noteq> c) s) \<le> length s" by (rule length_takeWhile_le)
  have "take (length (takeWhile (\<lambda>x. x \<noteq> c) s)) s = takeWhile (\<lambda>x. x \<noteq> c) s"
    by (metis append_eq_conv_conj takeWhile_dropWhile_id)
  then show ?thesis
    using len by (simp add: slice_str_def clamp_index_def indexOf_takeWhile[OF assms] min_def)
qed

lemma slice_after:
  assumes "c \<in> set s"
  shows "slice_from s (indexOf s c + 1) = tl (dropWhile (\<lambda>x. x \<noteq> c) s)"
proof -
  let ?n = "length (takeWhile (\<lambda>x. x \<noteq> c) s)"
  have lt: "?n < length s" using assms by (induction s) auto
  have "drop ?n s = dropWhile (\<lambda>x. x \<noteq> c) s"
    by (metis append_eq_conv_conj takeWhile_dropWhile_id)
  then have d: "drop (Suc ?n) s = tl (dropWhile (\<lambda>x. x \<noteq> c) s)"
    by (metis drop_Suc tl_drop)
  have c1: "clamp_index s (int ?n + 1) = Suc ?n"
    using lt by (simp add: clamp_index_def min_def)
  have c2: "clamp_index s (int (length s)) = length s"
    by (simp add: clamp_index_def)
  show ?thesis
    by (simp add: slice_from_def slice_str_def indexOf_takeWhile[OF assms] c1 c2 d)
qed

lemma forEach_append:
  "forEach e hs (xs @ ys) = (case forEach e hs xs of Inl err \<Rightarrow> Inl err | Inr hs' \<Rightarrow> forEach e hs' ys)"
  by (induction xs arbitrary: hs) (auto split: sum.splits)

lemma parse_line_eq:
  "parse_line e hs l =
     (if trim l = [] then Inr hs
      else if colon \<notin> set (trim l) \<or> header_name l = []
           then Inl (OperationError (js ''Could not parse header in line: '' @ trim l))
           else Headers_set e hs (header_name l) (header_value l))"
proof (cases "colon \<in> set (trim l)")
  case True
  then show ?thesis
    by (simp add: parse_line_def Let_def indexOf_neg_iff slice_before slice_after
        header_name_def header_value_def)
next
  case False
  then show ?thesis
    by (simp add: parse_line_def Let_def indexOf_neg_iff)
qed

lemma sameName_sym: "sameName a b \<Longrightarrow> sameName b a"
  by (simp add: sameName_def)

lemma sameName_trans: "sameName a b \<Longrightarrow> sameName b c \<Longrightarrow> sameName a c"
  by (simp add: sameName_def)

lemma get_filter:
  "\<not> sameName n m \<Longrightarrow>
     header_list_get (filter (\<lambda>(k', w'). \<not> sameName k' n) hs) m = header_list_get hs m"
proof (induction hs)
  case Nil
  then show ?case by simp
next
  case (Cons p hs)
  obtain k w where p: "p = (k, w)" by (cases p)
  show ?case
  proof (cases "sameName k n")
    case True
    with Cons.prems have "\<not> sameName k m" using sameName_sym sameName_trans by blast
    with True Cons show ?thesis by (simp add: p)
  next
    case False
    with Cons show ?thesis by (simp add: p)
  qed
qed

lemma get_set:
  "header_list_get (header_list_set hs n v) m =
     (if sameName n m then Some v else header_list_get hs m)"
proof (induction hs)
  case Nil
  then show ?case by simp
next
  case (Cons p hs)
  obtain k w where p: "p = (k, w)" by (cases p)
  show ?case
  proof (cases "sameName k n")
    case True
    show ?thesis
    proof (cases "sameName n m")
      case nm: True
      with True have "sameName k m" using sameName_trans by blast
      with True nm show ?thesis by (simp add: p)
    next
      case nm: False
      with True have "\<not> sameName k m" using sameName_sym sameName_trans by blast
      with True nm show ?thesis by (simp add: p get_filter)
    qed
  next
    case False
    show ?thesis
    proof (cases "sameName k m")
      case km: True
      with False have "\<not> sameName n m" using sameName_sym sameName_trans by blast
      with False km show ?thesis by (simp add: p)
    next
      case km: False
      with False Cons show ?thesis by (simp add: p)
    qed
  qed
qed

lemma last_value_Cons:
  "last_value (l # ls) n =
     (case last_value ls n of
        Some v \<Rightarrow> Some v
      | None \<Rightarrow> if trim l \<noteq> [] \<and> sameName (header_name l) n then Some (header_value l) else None)"
  by (simp add: last_value_def split: list.splits)

lemma Headers_set_well_formed:
  "isHeaderName (header_name l) \<Longrightarrow> isHeaderValue (header_value l) \<Longrightarrow>
     Headers_set e hs (header_name l) (header_value l)
       = Inr (header_list_set hs (header_name l) (header_value l))"
  by (simp add: Headers_set_def Let_def header_value_def normalize_trim)

lemma parse_line_well_formed:
  assumes "well_formed_line l \<and> accepted_line l"
  shows "parse_line e hs l =
           Inr (if trim l = [] then hs else header_list_set hs (header_name l) (header_value l))"
proof (cases "trim l = []")
  case True
  then show ?thesis by (simp add: parse_line_eq)
next
  case False
  with assms have c: "colon \<in> set (trim l)" and n: "isHeaderName (header_name l)"
    and v: "isHeaderValue (header_value l)"
    by (auto simp: well_formed_line_def accepted_line_def)
  from n have "header_name l \<noteq> []" by (simp add: isHeaderName_def)
  with False c show ?thesis
    by (simp add: parse_line_eq Headers_set_well_formed[OF n v])
qed

lemma forEach_well_formed:
  "list_all (\<lambda>l. well_formed_line l \<and> accepted_line l) lines \<Longrightarrow>
     \<exists>hs'. forEach e hs lines = Inr hs' \<and>
       (\<forall>n. header_list_get hs' n =
              (case last_value lines n of None \<Rightarrow> header_list_get hs n | Some v \<Rightarrow> Some v))"
proof (induction lines arbitrary: hs)
  case Nil
  then show ?case by (simp add: last_value_def)
next
  case (Cons l ls)
  then have wl: "well_formed_line l \<and> accepted_line l"
    and wls: "list_all (\<lambda>l. well_formed_line l \<and> accepted_line l) ls" by simp_all
  let ?hs1 = "if trim l = [] then hs else header_list_set hs (header_name l) (header_value l)"
  from Cons.IH[OF wls, of ?hs1] obtain hs' where
    run: "forEach e ?hs1 ls = Inr hs'" and
    get: "\<And>n. header_list_get hs' n =
              (case last_value ls n of None \<Rightarrow> header_list_get ?hs1 n | Some v \<Rightarrow> Some v)"
    by blast
  have "forEach e hs (l # ls) = Inr hs'"
    using run by (simp add: parse_line_well_formed[OF wl])
  moreover have "header_list_get hs' n =
      (case last_value (l # ls) n of None \<Rightarrow> header_list_get hs n | Some v \<Rightarrow> Some v)" for n
    by (simp add: get last_value_Cons get_set split: option.splits)
  ultimately show ?case by blast
qed

lemma run_reaches_try:
  "targetUrl input \<noteq> [] \<Longrightarrow> fetch e = Some f \<Longrightarrow> parse_headers e headersText = Inr hs \<Longrightarrow>
     run e this input (meth, payload, headersText, returnType)
       = catch_block e
           (try_block f this (targetUrl input) (build_config meth hs payload) returnType)"
  by (simp add: run_def)

lemma targetUrl_all_ws: "list_all isWhiteSpace s \<Longrightarrow> targetUrl (Some s) = []"
  by (simp add: targetUrl_def trim_all_ws)

lemma forEach_stops:
  assumes "forEach e hs0 pre = Inr hs" and "parse_line e hs l = Inl err"
  shows "forEach e hs0 (pre @ l # post) = Inl err"
  using assms by (simp add: forEach_append)

lemma run_headers_fail:
  "targetUrl input \<noteq> [] \<Longrightarrow> fetch e = Some f \<Longrightarrow> parse_headers e headersText = Inl err \<Longrightarrow>
     run e this input (meth, payload, headersText, returnType) = (Inl err, this, [])"
  by (simp add: run_def)

lemma try_block_rejected:
  "f url c = Inl err \<Longrightarrow> try_block f this url c returnType = (Inl err, this, [Call_fetch url c])"
  by (simp add: try_block_def)

lemma try_block_blocked:
  "f url c = Inr r \<Longrightarrow> status r = 0 \<Longrightarrow> type r = js ''opaque'' \<Longrightarrow>
     try_block f this url c returnType =
       (Inl (OperationError (js ''Error: Null response. Try setting the connection mode to CORS.'')),
        this, [Call_fetch url c])"
  by (simp add: try_block_def)

lemma try_block_bytes:
  "f url c = Inr r \<Longrightarrow> \<not> (status r = 0 \<and> type r = js ''opaque'') \<Longrightarrow>
     try_block f this url c (js ''Bytes'') =
       (case arrayBuffer r of Inl err \<Rightarrow> Inl err | Inr buffer \<Rightarrow> Inr (Bytes (map unat buffer)),
        this\<lparr>outputType := js ''byteArray'', presentType := js ''byteArray''\<rparr>,
        [Call_fetch url c, Call_arrayBuffer])"
  by (auto simp: try_block_def Let_def split: sum.splits)

lemma try_block_text:
  "f url c = Inr r \<Longrightarrow> \<not> (status r = 0 \<and> type r = js ''opaque'') \<Longrightarrow>
     returnType \<noteq> js ''Bytes'' \<Longrightarrow>
     try_block f this url c returnType =
       (case text' r of Inl err \<Rightarrow> Inl err | Inr t \<Rightarrow> Inr (Str t),
        this\<lparr>outputType := js ''string'', presentType := js ''string''\<rparr>,
        [Call_fetch url c, Call_text])"
  by (auto simp: try_block_def Let_def split: sum.splits)

lemma catch_block_Inl:
  "catch_block e (Inl err, this, calls) = (Inl (OperationError (toString e err @ hint)), this, calls)"
  by (simp add: catch_block_def)

lemma catch_block_Inr: "catch_block e (Inr v, this, calls) = (Inr v, this, calls)"
  by (simp add: catch_block_def)

lemma hint_literal:
  "hint = js (''\<newline>\<newline>This error could be caused by one of the following:\<newline>'' @
             '' - An invalid URL\<newline>'' @
             '' - Making a request to an insecure resource (HTTP) from a secure source (HTTPS)\<newline>'' @
             '' - Making a cross-origin request to a server which does not support CORS'')"
  by (simp only: hint_def js_append)

lemma String_not_Bytes: "js ''String'' \<noteq> js ''Bytes''"
  by (simp add: js_def)

lemma example_fetch_of: "fetch (example_env f) = f"
  by (simp add: example_env_def)

lemma example_url: "targetUrl (Some (js ''http://a'')) = js ''http://a''"
  by (simp add: targetUrl_def trim_def js_def isWhiteSpace_def)

lemma example_url_nonempty: "targetUrl (Some (js ''http://a'')) \<noteq> []"
  by (simp add: example_url) (simp add: js_def)

lemma try_block_calls:
  "\<exists>rest. snd (snd (try_block f this url c returnType)) = Call_fetch url c # rest
      \<and> (\<forall>u c'. Call_fetch u c' \<in> set rest \<longrightarrow> False)"
  by (auto simp: try_block_def Let_def split: sum.splits)

lemma catch_block_calls: "snd (snd (catch_block e out)) = snd (snd out)"
  by (cases out) (auto simp: catch_block_def split: sum.splits)

lemma run_calls_cases:
  "snd (snd (run e this input (meth, payload, headersText, returnType))) = [] \<or>
   (\<exists>f hs rest. targetUrl input \<noteq> [] \<and> fetch e = Some f \<and> parse_headers e headersText = Inr hs \<and>
      snd (snd (run e this input (meth, payload, headersText, returnType)))
        = Call_fetch (targetUrl input) (build_config meth hs payload) # rest \<and>
      (\<forall>u c'. Call_fetch u c' \<in> set rest \<longrightarrow> False))"
proof (cases "targetUrl input = []")
  case True
  then show ?thesis by (simp add: run_def)
next
  case url: False
  show ?thesis
  proof (cases "fetch e")
    case None
    with url show ?thesis by (simp add: run_def)
  next
    case (Some f)
    show ?thesis
    proof (cases "parse_headers e headersText")
      case (Inl err)
      with url Some show ?thesis by (simp add: run_def)
    next
      case (Inr hs)
      from try_block_calls [of f this "targetUrl input" "build_config meth hs payload" returnType]
      obtain rest where
        "snd (snd (try_block f this (targetUrl input) (build_config meth hs payload) returnType))
           = Call_fetch (targetUrl input) (build_config meth hs payload) # rest"
        and "\<forall>u c'. Call_fetch u c' \<in> set rest \<longrightarrow> False"
        by blast
      with url Some Inr show ?thesis
        by (simp add: run_reaches_try catch_block_calls)
    qed
  qed
qed

lemma build_config_fields:
  "method (build_config meth hs payload) = meth"
  "headers (build_config meth hs payload) = hs"
  "cache (build_config meth hs payload) = js ''no-cache''"
  "body (build_config meth hs payload) =
     (if meth \<noteq> js ''GET'' \<and> meth \<noteq> js ''HEAD'' \<and> payload \<noteq> [] then Some payload else None)"
  by (simp_all add: build_config_def Let_def)

lemma example_headers: "parse_headers e (js ''A: 1'') = Inr [(js ''A'', js ''1'')]"
  by code_simp

lemma example_no_headers: "parse_headers e [] = Inr []"
  by (simp add: parse_headers_def parse_line_def)

lemma name_header_list_set:
  "p \<in> set (header_list_set hs n v) \<Longrightarrow> fst p = n \<or> fst p \<in> fst ` set hs"
proof (induction hs)
  case Nil
  then show ?case by simp
next
  case (Cons q hs)
  obtain k w where q: "q = (k, w)" by (cases q)
  show ?case
  proof (cases "sameName k n")
    case True
    with Cons.prems have "p = (k, v) \<or> p \<in> set hs" by (auto simp: q)
    then show ?thesis by (auto simp: q)
  next
    case False
    with Cons.prems have "p = (k, w) \<or> p \<in> set (header_list_set hs n v)" by (auto simp: q)
    with Cons.IH show ?thesis by (auto simp: q)
  qed
qed

lemma names_header_list_set:
  "byteLowercase ` fst ` set (header_list_set hs n v)
     \<subseteq> insert (byteLowercase n) (byteLowercase ` fst ` set hs)"
  using name_header_list_set [of _ hs n v] by (auto simp: image_iff)

lemma distinct_names_filter:
  "distinct (map (\<lambda>p. byteLowercase (fst p)) hs) \<Longrightarrow>
     distinct (map (\<lambda>p. byteLowercase (fst p)) (filter P hs))"
  by (induction hs) auto

lemma distinct_header_list_set:
  "distinct (map (\<lambda>p. byteLowercase (fst p)) hs) \<Longrightarrow>
     distinct (map (\<lambda>p. byteLowercase (fst p)) (header_list_set hs n v))"
proof (induction hs)
  case Nil
  then show ?case by simp
next
  case (Cons p hs)
  obtain k w where p: "p = (k, w)" by (cases p)
  from Cons.prems have notin: "byteLowercase k \<notin> byteLowercase ` fst ` set hs"
    and d: "distinct (map (\<lambda>p. byteLowercase (fst p)) hs)"
    by (auto simp: p image_image)
  show ?case
  proof (cases "sameName k n")
    case True
    have "byteLowercase k \<notin> byteLowercase ` fst ` set (filter (\<lambda>(k', w'). \<not> sameName k' n) hs)"
      using notin by auto
    with True d show ?thesis
      by (simp add: p distinct_names_filter image_image)
  next
    case False
    then have "byteLowercase k \<noteq> byteLowercase n" by (simp add: sameName_def)
    with notin names_header_list_set [of hs n v]
    have "byteLowercase k \<notin> byteLowercase ` fst ` set (header_list_set hs n v)" by blast
    with False Cons.IH [OF d] show ?thesis
      by (simp add: p image_image)
  qed
qed

lemma forEach_distinct:
  "list_all (\<lambda>l. well_formed_line l \<and> accepted_line l) lines \<Longrightarrow>
     distinct (map (\<lambda>p. byteLowercase (fst p)) hs) \<Longrightarrow>
     forEach e hs lines = Inr hs' \<Longrightarrow> distinct (map (\<lambda>p. byteLowercase (fst p)) hs')"
proof (induction lines arbitrary: hs)
  case Nil
  then show ?case by simp
next
  case (Cons l ls)
  then have wl: "well_formed_line l \<and> accepted_line l"
    and wls: "list_all (\<lambda>l. well_formed_line l \<and> accepted_line l) ls" by simp_all
  let ?hs1 = "if trim l = [] then hs else header_list_set hs (header_name l) (header_value l)"
  have d1: "distinct (map (\<lambda>p. byteLowercase (fst p)) ?hs1)"
    using Cons.prems(2) by (simp add: distinct_header_list_set)
  from Cons.prems(3) have "forEach e ?hs1 ls = Inr hs'"
    by (simp add: parse_line_well_formed [OF wl])
  with Cons.IH [OF wls d1] show ?case .
qed

section \<open>The claims\<close>

text \<open>
  C2. Whenever the trimmed input is empty, which includes an input that is missing or made of
  white space only, \<open>run\<close> returns the empty string, makes no call to the platform (the log
  of calls is empty) and leaves the operation's declared types as they were, whatever the
  other arguments and the environment are.
\<close>

theorem blank_input_returns_empty:
  assumes "targetUrl input = [] \<or> (\<exists>s. input = Some s \<and> list_all isWhiteSpace s)"
  shows "run e this input args = (Inr (Str []), this, [])"
proof -
  from assms have "targetUrl input = []" using targetUrl_all_ws by blast
  then show ?thesis by (simp add: run_def split: prod.splits)
qed

text \<open>
  C2 at the input of three spaces, with a payload, a header line without a colon and a
  transport that would answer.
\<close>

theorem blank_input_returns_empty_witness:
  "targetUrl (Some (js ''   '')) = [] \<and>
   run (example_env (Some (example_fetch (Inr example_ok)))) example_this (Some (js ''   ''))
       (js ''POST'', js ''p'', js ''X-Foo'', js ''Bytes'')
     = (Inr (Str []), example_this, [])"
proof -
  have h: "targetUrl (Some (js ''   '')) = []"
    by (simp add: targetUrl_def trim_def js_def isWhiteSpace_def)
  show ?thesis
    using h blank_input_returns_empty [of "Some (js ''   '')"] by simp
qed

text \<open>
  C6, as the code has it. With a trimmed URL that is not empty and no \<^verbatim>\<open>fetch\<close> function in
  the environment, \<open>run\<close> fails with the message
  \<^verbatim>\<open>Fetch API is not available in this environment.\<close>, which ends in a full stop. No call
  is made, the declared types are unchanged, and the header text is not looked at: the
  result is the same for every header text.
\<close>

theorem fetch_unavailable:
  assumes "targetUrl input \<noteq> []" and "fetch e = None"
  shows "run e this input args =
           (Inl (OperationError (js ''Fetch API is not available in this environment.'')),
            this, [])"
  using assms by (simp add: run_def split: prod.splits)

text \<open>C6 at a URL, with a header line that could not be parsed.\<close>

theorem fetch_unavailable_witness:
  "targetUrl (Some (js ''http://a'')) \<noteq> [] \<and> fetch (example_env None) = None \<and>
   run (example_env None) example_this (Some (js ''http://a''))
       (js ''GET'', [], js ''X-Foo'', js ''String'')
     = (Inl (OperationError (js ''Fetch API is not available in this environment.'')),
        example_this, [])"
proof -
  have u: "targetUrl (Some (js ''http://a'')) \<noteq> []"
    by (simp add: targetUrl_def trim_def js_def isWhiteSpace_def)
  have f: "fetch (example_env None) = None"
    by (simp add: example_env_def)
  show ?thesis
    using u f fetch_unavailable [OF u f] by simp
qed

text \<open>
  C6 as the specification words the message, without the full stop: that is not the message
  of the error the code throws.
\<close>

theorem fetch_unavailable_message_counterexample:
  "fst (run (example_env None) example_this (Some (js ''http://a''))
          (js ''GET'', [], [], js ''String''))
     \<noteq> Inl (OperationError (js ''Fetch API is not available in this environment''))"
  by (simp add: run_def targetUrl_def trim_def js_def isWhiteSpace_def example_env_def)

text \<open>
  C1, as the code has it. The error for a response of status 0 and type \<^verbatim>\<open>opaque\<close> is thrown
  inside the \<^verbatim>\<open>try\<close> block, so the \<^verbatim>\<open>catch\<close> block replaces it like any other: \<open>run\<close> fails
  with an error whose message is the description of the blocked-response error (what its
  \<^verbatim>\<open>toString()\<close> returns) followed by the hint block. The body is not read and the declared
  types are unchanged. Because the hint block ends the message, the message is in no
  environment the bare text of the blocked-response error.
\<close>

theorem blocked_response_wrapped:
  assumes "targetUrl input \<noteq> []" and "fetch e = Some f"
    and "parse_headers e headersText = Inr hs"
    and "f (targetUrl input) (build_config meth hs payload) = Inr r"
    and "status r = 0" and "type r = js ''opaque''"
  shows "run e this input (meth, payload, headersText, returnType) =
           (Inl (OperationError
              (OperationError_toString e
                 (js ''Error: Null response. Try setting the connection mode to CORS.'') @ hint)),
            this, [Call_fetch (targetUrl input) (build_config meth hs payload)])
         \<and> fst (run e this input (meth, payload, headersText, returnType)) \<noteq>
             Inl (OperationError
               (js ''Error: Null response. Try setting the connection mode to CORS.''))"
proof -
  let ?m = "js ''Error: Null response. Try setting the connection mode to CORS.''"
  have run: "run e this input (meth, payload, headersText, returnType) =
      (Inl (OperationError (OperationError_toString e ?m @ hint)),
       this, [Call_fetch (targetUrl input) (build_config meth hs payload)])"
    using assms
    by (simp add: run_reaches_try try_block_blocked catch_block_Inl toString_def)
  have "hint \<noteq> []" by (simp add: hint_def js_def)
  then have "last (OperationError_toString e ?m @ hint) = last hint" by (rule last_appendR)
  moreover have "last hint \<noteq> last ?m" by (simp add: hint_def js_def)
  ultimately have "OperationError_toString e ?m @ hint \<noteq> ?m" by metis
  with run show ?thesis by simp
qed

text \<open>C1 at a transport that answers with status 0 and type \<^verbatim>\<open>opaque\<close>.\<close>

theorem blocked_response_wrapped_witness:
  "run (example_env (Some (example_fetch (Inr example_opaque)))) example_this
       (Some (js ''http://a'')) (js ''GET'', [], [], js ''String'')
     = (Inl (OperationError
          (js ''Error: Error: Null response. Try setting the connection mode to CORS.'' @ hint)),
        example_this, [Call_fetch (js ''http://a'') (build_config (js ''GET'') [] [])])"
proof -
  let ?f = "example_fetch (Inr example_opaque)"
  have h: "parse_headers (example_env (Some ?f)) [] = Inr []"
    by (simp add: parse_headers_def parse_line_def)
  have r: "?f (targetUrl (Some (js ''http://a''))) (build_config (js ''GET'') [] []) = Inr example_opaque"
    by (simp add: example_fetch_def)
  have s: "status example_opaque = 0" and t: "type example_opaque = js ''opaque''"
    by (simp_all add: example_opaque_def)
  show ?thesis
    using blocked_response_wrapped [OF example_url_nonempty example_fetch_of h r s t,
        of example_this "js ''String''"]
    by (simp add: example_url example_env_def example_toString_def js_append [symmetric])
qed

text \<open>
  C1 as the specification states it: the error of a blocked response would reach the caller
  with exactly its own message. It does not.
\<close>

theorem blocked_response_counterexample:
  "fst (run (example_env (Some (example_fetch (Inr example_opaque)))) example_this
          (Some (js ''http://a'')) (js ''GET'', [], [], js ''String''))
     \<noteq> Inl (OperationError
           (js ''Error: Null response. Try setting the connection mode to CORS.''))"
proof -
  let ?f = "example_fetch (Inr example_opaque)"
  have h: "parse_headers (example_env (Some ?f)) [] = Inr []"
    by (simp add: parse_headers_def parse_line_def)
  have "run (example_env (Some ?f)) example_this (Some (js ''http://a''))
          (js ''GET'', [], [], js ''String'')
        = catch_block (example_env (Some ?f))
            (try_block ?f example_this (js ''http://a'') (build_config (js ''GET'') [] [])
               (js ''String''))"
    using run_reaches_try [OF example_url_nonempty example_fetch_of h] by (simp add: example_url)
  then show ?thesis
    by (simp add: try_block_def example_fetch_def example_opaque_def catch_block_def
        toString_def example_env_def example_toString_def hint_def js_def)
qed

text \<open>
  C3. When the header text is reached (the trimmed URL is not empty and \<^verbatim>\<open>fetch\<close> exists)
  and the lines before a line have been accepted, then if that line, trimmed, is not blank
  and either has no colon or has nothing but white space before its first colon, \<open>run\<close> fails
  with the message \<^verbatim>\<open>Could not parse header in line: \<close> followed by the trimmed line. The
  error reaches the caller as it is, without the hint block; no request is made and the
  declared types are unchanged.
\<close>

theorem header_line_not_parsed:
  assumes "targetUrl input \<noteq> []" and "fetch e = Some f"
    and "split_lines headersText = pre @ line0 # post"
    and "forEach e [] pre = Inr hs"
    and "line = trim line0" and "line \<noteq> []"
    and "colon \<notin> set line \<or> trim (takeWhile (\<lambda>c. c \<noteq> colon) line) = []"
  shows "run e this input (meth, payload, headersText, returnType) =
           (Inl (OperationError (js ''Could not parse header in line: '' @ line)), this, [])"
proof -
  have "parse_line e hs line0 =
          Inl (OperationError (js ''Could not parse header in line: '' @ line))"
    using assms(5-7) by (auto simp: parse_line_eq header_name_def)
  with assms(3,4) have "parse_headers e headersText =
          Inl (OperationError (js ''Could not parse header in line: '' @ line))"
    by (simp add: parse_headers_def forEach_stops)
  with assms(1,2) show ?thesis by (rule run_headers_fail)
qed

text \<open>
  C3 at two header texts: a second line without a colon, and a line whose name is empty
  (the line is quoted trimmed).
\<close>

theorem header_line_not_parsed_witness:
  "run (example_env (Some (example_fetch (Inr example_ok)))) example_this
       (Some (js ''http://a'')) (js ''POST'', js ''p'', js ''A: 1\<newline>X-Foo\<newline>B: 2'', js ''String'')
     = (Inl (OperationError (js ''Could not parse header in line: X-Foo'')), example_this, [])
   \<and> run (example_env (Some (example_fetch (Inr example_ok)))) example_this
       (Some (js ''http://a'')) (js ''POST'', js ''p'', js '' : value '', js ''String'')
     = (Inl (OperationError (js ''Could not parse header in line: : value'')), example_this, [])"
proof -
  let ?e = "example_env (Some (example_fetch (Inr example_ok)))"
  have s1: "split_lines (js ''A: 1\<newline>X-Foo\<newline>B: 2'') = [js ''A: 1''] @ js ''X-Foo'' # [js ''B: 2'']"
    by (simp add: js_def LF_def CR_def)
  have p1: "forEach ?e [] [js ''A: 1''] = Inr [(js ''A'', js ''1'')]"
    by code_simp
  have t1: "js ''X-Foo'' = trim (js ''X-Foo'')"
    by code_simp
  have n1: "js ''X-Foo'' \<noteq> []"
    by (simp add: js_def)
  have c1: "colon \<notin> set (js ''X-Foo'') \<or> trim (takeWhile (\<lambda>c. c \<noteq> colon) (js ''X-Foo'')) = []"
    by (simp add: js_def colon_def)
  have s2: "split_lines (js '' : value '') = [] @ js '' : value '' # []"
    by (simp add: js_def LF_def CR_def)
  have p2: "forEach ?e [] [] = Inr []"
    by simp
  have t2: "js '': value'' = trim (js '' : value '')"
    by code_simp
  have n2: "js '': value'' \<noteq> []"
    by (simp add: js_def)
  have c2: "colon \<notin> set (js '': value'') \<or> trim (takeWhile (\<lambda>c. c \<noteq> colon) (js '': value'')) = []"
    by (simp add: js_def colon_def)
  show ?thesis
    using header_line_not_parsed [OF example_url_nonempty example_fetch_of s1 p1 t1 n1 c1,
        of example_this "js ''POST''" "js ''p''" "js ''String''"]
      header_line_not_parsed [OF example_url_nonempty example_fetch_of s2 p2 t2 n2 c2,
        of example_this "js ''POST''" "js ''p''" "js ''String''"]
    by (simp add: js_append [symmetric])
qed

text \<open>
  C5. Every request that \<open>run\<close> passes to \<^verbatim>\<open>fetch\<close> carries a body exactly when the method is
  neither \<^verbatim>\<open>GET\<close> nor \<^verbatim>\<open>HEAD\<close> and the payload is not empty, and the body is then the payload
  itself. A payload given with \<^verbatim>\<open>GET\<close> or \<^verbatim>\<open>HEAD\<close> is left out and nothing is rejected on its
  account: whenever the trimmed URL is not empty, \<^verbatim>\<open>fetch\<close> exists and the headers parse, the
  request is made, first among the calls, with the method, the parsed headers and
  \<^verbatim>\<open>no-cache\<close>.
\<close>

theorem request_body_iff:
  "(\<forall>u c. Call_fetch u c \<in> set (snd (snd (run e this input (meth, payload, headersText, returnType))))
      \<longrightarrow> (body c \<noteq> None \<longleftrightarrow> meth \<noteq> js ''GET'' \<and> meth \<noteq> js ''HEAD'' \<and> payload \<noteq> [])
        \<and> (body c \<noteq> None \<longrightarrow> body c = Some payload))
   \<and> (targetUrl input \<noteq> [] \<and> fetch e = Some f \<and> parse_headers e headersText = Inr hs
      \<longrightarrow> (\<exists>c rest. snd (snd (run e this input (meth, payload, headersText, returnType)))
                       = Call_fetch (targetUrl input) c # rest
             \<and> method c = meth \<and> headers c = hs \<and> cache c = js ''no-cache''
             \<and> body c = (if meth \<noteq> js ''GET'' \<and> meth \<noteq> js ''HEAD'' \<and> payload \<noteq> []
                         then Some payload else None)))"
proof -
  let ?calls = "snd (snd (run e this input (meth, payload, headersText, returnType)))"
  have first: "body c \<noteq> None \<longleftrightarrow> meth \<noteq> js ''GET'' \<and> meth \<noteq> js ''HEAD'' \<and> payload \<noteq> []"
    and second: "body c \<noteq> None \<longrightarrow> body c = Some payload"
    if "Call_fetch u c \<in> set ?calls" for u c
  proof -
    from run_calls_cases [of e this input meth payload headersText returnType] that
    obtain hs' where "c = build_config meth hs' payload" by auto
    then show "body c \<noteq> None \<longleftrightarrow> meth \<noteq> js ''GET'' \<and> meth \<noteq> js ''HEAD'' \<and> payload \<noteq> []"
      and "body c \<noteq> None \<longrightarrow> body c = Some payload"
      by (simp_all add: build_config_fields)
  qed
  have third: "\<exists>c rest. ?calls = Call_fetch (targetUrl input) c # rest
             \<and> method c = meth \<and> headers c = hs \<and> cache c = js ''no-cache''
             \<and> body c = (if meth \<noteq> js ''GET'' \<and> meth \<noteq> js ''HEAD'' \<and> payload \<noteq> []
                         then Some payload else None)"
    if "targetUrl input \<noteq> []" "fetch e = Some f" "parse_headers e headersText = Inr hs"
  proof -
    from try_block_calls [of f this "targetUrl input" "build_config meth hs payload" returnType]
    obtain rest where
      "snd (snd (try_block f this (targetUrl input) (build_config meth hs payload) returnType))
         = Call_fetch (targetUrl input) (build_config meth hs payload) # rest"
      by blast
    with that have "?calls = Call_fetch (targetUrl input) (build_config meth hs payload) # rest"
      by (simp add: run_reaches_try catch_block_calls)
    then show ?thesis by (simp add: build_config_fields)
  qed
  from first second third show ?thesis by blast
qed

text \<open>
  C5 at two requests to the same transport: a \<^verbatim>\<open>POST\<close> with a payload, which is sent as the
  body, and a \<^verbatim>\<open>GET\<close> with the same payload, which is sent without a body.
\<close>

theorem request_body_iff_witness:
  "snd (snd (run (example_env (Some (example_fetch (Inr example_ok)))) example_this
       (Some (js ''http://a'')) (js ''POST'', js ''p'', js ''A: 1'', js ''String'')))
     = [Call_fetch (js ''http://a'')
          \<lparr>method = js ''POST'', headers = [(js ''A'', js ''1'')], cache = js ''no-cache'',
           body = Some (js ''p'')\<rparr>,
        Call_text]
   \<and> snd (snd (run (example_env (Some (example_fetch (Inr example_ok)))) example_this
       (Some (js ''http://a'')) (js ''GET'', js ''p'', js ''A: 1'', js ''String'')))
     = [Call_fetch (js ''http://a'')
          \<lparr>method = js ''GET'', headers = [(js ''A'', js ''1'')], cache = js ''no-cache'',
           body = None\<rparr>,
        Call_text]"
proof -
  let ?e = "example_env (Some (example_fetch (Inr example_ok)))"
  let ?run = "\<lambda>m. run ?e example_this (Some (js ''http://a'')) (m, js ''p'', js ''A: 1'', js ''String'')"
  have post: "js ''POST'' \<noteq> js ''GET''" "js ''POST'' \<noteq> js ''HEAD''" and p: "js ''p'' \<noteq> []"
    by (simp_all add: js_def)
  have len: "length (snd (snd (?run m))) = 2" and last: "snd (snd (?run m)) ! 1 = Call_text" for m
    by (simp_all add: run_reaches_try [OF example_url_nonempty example_fetch_of example_headers]
        catch_block_calls try_block_def example_fetch_def example_ok_def
        String_not_Bytes Let_def)
  have shape: "\<exists>c. snd (snd (?run m)) = [Call_fetch (js ''http://a'') c, Call_text]
            \<and> method c = m \<and> headers c = [(js ''A'', js ''1'')] \<and> cache c = js ''no-cache''
            \<and> body c = (if m \<noteq> js ''GET'' \<and> m \<noteq> js ''HEAD'' \<and> js ''p'' \<noteq> []
                        then Some (js ''p'') else None)" for m
  proof -
    from request_body_iff [of ?e example_this "Some (js ''http://a'')" m "js ''p''" "js ''A: 1''"
        "js ''String''" "example_fetch (Inr example_ok)" "[(js ''A'', js ''1'')]"]
      example_url_nonempty example_fetch_of [of "Some (example_fetch (Inr example_ok))"]
      example_headers [of ?e]
    obtain c rest where c: "snd (snd (?run m)) = Call_fetch (js ''http://a'') c # rest"
      "method c = m" "headers c = [(js ''A'', js ''1'')]" "cache c = js ''no-cache''"
      "body c = (if m \<noteq> js ''GET'' \<and> m \<noteq> js ''HEAD'' \<and> js ''p'' \<noteq> []
                        then Some (js ''p'') else None)"
      by (auto simp: example_url)
    from c(1) len [of m] last [of m] have "rest = [Call_text]"
      by (cases rest) auto
    with c show ?thesis by blast
  qed
  from shape [of "js ''POST''"] shape [of "js ''GET''"] post p show ?thesis
    by (auto simp: config.equality)
qed

text \<open>
  C7. When the request is made and the response is not the blocked one: with return type
  \<^verbatim>\<open>Bytes\<close> and a body that can be read, \<open>run\<close> sets the declared output type and
  presentation type to \<^verbatim>\<open>byteArray\<close> and returns the bytes of the body as numbers, as many as
  the body has bytes, in the order of the body, each between 0 and 255; with return type
  \<^verbatim>\<open>String\<close> and a body that can be read, it sets both types to \<^verbatim>\<open>string\<close> and returns the
  text of the body.
\<close>

theorem successful_request_result:
  assumes "targetUrl input \<noteq> []" and "fetch e = Some f"
    and "parse_headers e headersText = Inr hs"
    and "f (targetUrl input) (build_config meth hs payload) = Inr r"
    and "\<not> (status r = 0 \<and> type r = js ''opaque'')"
  shows "(\<forall>buffer. arrayBuffer r = Inr buffer \<longrightarrow>
            (\<exists>ns. run e this input (meth, payload, headersText, js ''Bytes'') =
                    (Inr (Bytes ns),
                     this\<lparr>outputType := js ''byteArray'', presentType := js ''byteArray''\<rparr>,
                     [Call_fetch (targetUrl input) (build_config meth hs payload), Call_arrayBuffer])
                \<and> length ns = length buffer
                \<and> (\<forall>i < length buffer. ns ! i = unat (buffer ! i) \<and> ns ! i \<le> 255)))
       \<and> (\<forall>t. text' r = Inr t \<longrightarrow>
            run e this input (meth, payload, headersText, js ''String'') =
              (Inr (Str t),
               this\<lparr>outputType := js ''string'', presentType := js ''string''\<rparr>,
               [Call_fetch (targetUrl input) (build_config meth hs payload), Call_text]))"
proof (intro conjI allI impI)
  fix buffer
  assume b: "arrayBuffer r = Inr buffer"
  let ?ns = "map unat buffer"
  have "run e this input (meth, payload, headersText, js ''Bytes'') =
          (Inr (Bytes ?ns),
           this\<lparr>outputType := js ''byteArray'', presentType := js ''byteArray''\<rparr>,
           [Call_fetch (targetUrl input) (build_config meth hs payload), Call_arrayBuffer])"
    using assms b by (simp add: run_reaches_try try_block_bytes catch_block_Inr)
  moreover have "length ?ns = length buffer" by simp
  moreover have "?ns ! i = unat (buffer ! i) \<and> ?ns ! i \<le> 255" if "i < length buffer" for i
  proof -
    have "unat (buffer ! i) < 2 ^ LENGTH(8)" by (rule unsigned_less)
    then have "unat (buffer ! i) < 256" by simp
    with that show ?thesis by simp
  qed
  ultimately show "\<exists>ns. run e this input (meth, payload, headersText, js ''Bytes'') =
                    (Inr (Bytes ns),
                     this\<lparr>outputType := js ''byteArray'', presentType := js ''byteArray''\<rparr>,
                     [Call_fetch (targetUrl input) (build_config meth hs payload), Call_arrayBuffer])
                \<and> length ns = length buffer
                \<and> (\<forall>i < length buffer. ns ! i = unat (buffer ! i) \<and> ns ! i \<le> 255)"
    by blast
next
  fix t
  assume t: "text' r = Inr t"
  show "run e this input (meth, payload, headersText, js ''String'') =
          (Inr (Str t),
           this\<lparr>outputType := js ''string'', presentType := js ''string''\<rparr>,
           [Call_fetch (targetUrl input) (build_config meth hs payload), Call_text])"
    using assms t
    by (simp add: run_reaches_try try_block_text [OF _ _ String_not_Bytes] catch_block_Inr)
qed

text \<open>
  C7 at a response of status 200 whose body is the two bytes 104 and 105, the text \<^verbatim>\<open>hi\<close>,
  from an operation whose declared types were \<^verbatim>\<open>string\<close>.
\<close>

theorem successful_request_result_witness:
  "run (example_env (Some (example_fetch (Inr example_ok)))) example_this
       (Some (js ''http://a'')) (js ''GET'', [], [], js ''Bytes'')
     = (Inr (Bytes [104, 105]),
        \<lparr>outputType = js ''byteArray'', presentType = js ''byteArray''\<rparr>,
        [Call_fetch (js ''http://a'') (build_config (js ''GET'') [] []), Call_arrayBuffer])
   \<and> run (example_env (Some (example_fetch (Inr example_ok)))) example_this
       (Some (js ''http://a'')) (js ''GET'', [], [], js ''String'')
     = (Inr (Str (js ''hi'')),
        \<lparr>outputType = js ''string'', presentType = js ''string''\<rparr>,
        [Call_fetch (js ''http://a'') (build_config (js ''GET'') [] []), Call_text])"
proof -
  let ?f = "example_fetch (Inr example_ok)"
  have r: "?f (targetUrl (Some (js ''http://a''))) (build_config (js ''GET'') [] []) = Inr example_ok"
    by (simp add: example_fetch_def)
  have nb: "\<not> (status example_ok = 0 \<and> type example_ok = js ''opaque'')"
    by (simp add: example_ok_def)
  have b: "arrayBuffer example_ok = Inr [104, 105]" and t: "text' example_ok = Inr (js ''hi'')"
    by (simp_all add: example_ok_def)
  have fe: "fetch (example_env (Some ?f)) = Some ?f"
    by (rule example_fetch_of)
  have ph: "parse_headers (example_env (Some ?f)) [] = Inr []"
    by (rule example_no_headers)
  note inst = successful_request_result
    [where e = "example_env (Some ?f)" and f = ?f and input = "Some (js ''http://a'')"
       and headersText = "[]" and hs = "[]" and meth = "js ''GET''" and payload = "[]"
       and r = example_ok and this = example_this,
     OF example_url_nonempty fe ph r nb]
  from inst b obtain ns where
    run: "run (example_env (Some ?f)) example_this (Some (js ''http://a''))
            (js ''GET'', [], [], js ''Bytes'')
          = (Inr (Bytes ns),
             example_this\<lparr>outputType := js ''byteArray'', presentType := js ''byteArray''\<rparr>,
             [Call_fetch (targetUrl (Some (js ''http://a''))) (build_config (js ''GET'') [] []),
              Call_arrayBuffer])"
    and len: "length ns = length [104, 105 :: 8 word]"
    and nth: "\<forall>i < length [104, 105 :: 8 word]. ns ! i = unat ([104, 105 :: 8 word] ! i) \<and> ns ! i \<le> 255"
    by blast
  from nth have "ns ! 0 = 104" and "ns ! 1 = 105" by simp_all
  with len have "ns = [104, 105]"
    by (cases ns; cases "tl ns") auto
  with run inst t show ?thesis
    by (simp add: example_url example_this_def)
qed

text \<open>
  C8. When the call of \<^verbatim>\<open>fetch\<close> rejects with an error, or the response is not the blocked
  one and reading its body (as bytes for return type \<^verbatim>\<open>Bytes\<close>, as text otherwise) rejects
  with an error, \<open>run\<close> fails with an error whose message is the description of that error
  followed by the fixed text that lists, in this order, an invalid URL, a request to an
  insecure resource (HTTP) from a secure source (HTTPS), and a cross-origin request to a
  server which does not support CORS.
\<close>

theorem transport_failure_wrapped:
  assumes "targetUrl input \<noteq> []" and "fetch e = Some f"
    and "parse_headers e headersText = Inr hs"
    and "f (targetUrl input) (build_config meth hs payload) = Inl err
         \<or> (\<exists>r. f (targetUrl input) (build_config meth hs payload) = Inr r
                \<and> \<not> (status r = 0 \<and> type r = js ''opaque'')
                \<and> (if returnType = js ''Bytes'' then arrayBuffer r = Inl err
                    else text' r = Inl err))"
  shows "fst (run e this input (meth, payload, headersText, returnType)) =
           Inl (OperationError (toString e err @
             js (''\<newline>\<newline>This error could be caused by one of the following:\<newline>'' @
                 '' - An invalid URL\<newline>'' @
                 '' - Making a request to an insecure resource (HTTP) from a secure source (HTTPS)\<newline>'' @
                 '' - Making a cross-origin request to a server which does not support CORS'')))"
proof -
  let ?c = "build_config meth hs payload"
  have "fst (try_block f this (targetUrl input) ?c returnType) = Inl err"
    using assms(4)
  proof (elim disjE exE conjE)
    assume "f (targetUrl input) ?c = Inl err"
    then show ?thesis by (simp add: try_block_rejected)
  next
    fix r
    assume r: "f (targetUrl input) ?c = Inr r" "\<not> (status r = 0 \<and> type r = js ''opaque'')"
      and read: "if returnType = js ''Bytes'' then arrayBuffer r = Inl err else text' r = Inl err"
    show ?thesis
    proof (cases "returnType = js ''Bytes''")
      case True
      with r read show ?thesis by (simp add: try_block_bytes)
    next
      case False
      with r read show ?thesis by (simp add: try_block_text)
    qed
  qed
  then have "fst (catch_block e (try_block f this (targetUrl input) ?c returnType)) =
      Inl (OperationError (toString e err @ hint))"
    by (cases "try_block f this (targetUrl input) ?c returnType") (simp add: catch_block_def)
  with assms(1-3) show ?thesis
    by (simp add: run_reaches_try hint_literal)
qed

text \<open>
  C8 at a transport that rejects with \<^verbatim>\<open>TypeError: Failed to fetch\<close>, and at a response
  whose body cannot be read.
\<close>

theorem transport_failure_wrapped_witness:
  "fst (run (example_env (Some (example_fetch (Inl (Foreign (js ''TypeError: Failed to fetch''))))))
          example_this (Some (js ''http://a'')) (js ''GET'', [], [], js ''String''))
     = Inl (OperationError (js ''TypeError: Failed to fetch'' @ hint))
   \<and> fst (run (example_env (Some (example_fetch (Inr example_unreadable))))
          example_this (Some (js ''http://a'')) (js ''GET'', [], [], js ''Bytes''))
     = Inl (OperationError (js ''TypeError: Failed to fetch'' @ hint))"
proof -
  let ?err = "Foreign (js ''TypeError: Failed to fetch'')"
  let ?f = "example_fetch (Inl ?err)"
  let ?g = "example_fetch (Inr example_unreadable)"
  have fe: "fetch (example_env (Some ?f)) = Some ?f" and ge: "fetch (example_env (Some ?g)) = Some ?g"
    by (rule example_fetch_of)+
  have fh: "parse_headers (example_env (Some ?f)) [] = Inr []"
    and gh: "parse_headers (example_env (Some ?g)) [] = Inr []"
    by (rule example_no_headers)+
  have rej: "?f (targetUrl (Some (js ''http://a''))) (build_config (js ''GET'') [] []) = Inl ?err
         \<or> (\<exists>r. ?f (targetUrl (Some (js ''http://a''))) (build_config (js ''GET'') [] []) = Inr r
                \<and> \<not> (status r = 0 \<and> type r = js ''opaque'')
                \<and> (if js ''String'' = js ''Bytes'' then arrayBuffer r = Inl ?err
                    else text' r = Inl ?err))"
    by (simp add: example_fetch_def)
  have unread: "?g (targetUrl (Some (js ''http://a''))) (build_config (js ''GET'') [] []) = Inl ?err
         \<or> (\<exists>r. ?g (targetUrl (Some (js ''http://a''))) (build_config (js ''GET'') [] []) = Inr r
                \<and> \<not> (status r = 0 \<and> type r = js ''opaque'')
                \<and> (if js ''Bytes'' = js ''Bytes'' then arrayBuffer r = Inl ?err
                    else text' r = Inl ?err))"
    by (simp add: example_fetch_def example_unreadable_def)
  show ?thesis
    using transport_failure_wrapped
      [where e = "example_env (Some ?f)" and f = ?f and input = "Some (js ''http://a'')"
         and headersText = "[]" and hs = "[]" and meth = "js ''GET''" and payload = "[]"
         and err = ?err and returnType = "js ''String''" and this = example_this,
       OF example_url_nonempty fe fh rej]
      transport_failure_wrapped
      [where e = "example_env (Some ?g)" and f = ?g and input = "Some (js ''http://a'')"
         and headersText = "[]" and hs = "[]" and meth = "js ''GET''" and payload = "[]"
         and err = ?err and returnType = "js ''Bytes''" and this = example_this,
       OF example_url_nonempty ge gh unread]
    by (simp add: toString_def hint_literal)
qed

text \<open>
  C9. When the request is made and the response is not the blocked one, the operation's
  declared output type and presentation type are those of the selected return type
  (\<^verbatim>\<open>byteArray\<close> for \<^verbatim>\<open>Bytes\<close>, \<^verbatim>\<open>string\<close> for \<^verbatim>\<open>String\<close> and anything else) once \<open>run\<close> has
  settled, whatever reading the body gives. In particular, when reading the body fails,
  \<open>run\<close> fails, the read has been attempted after the request, and the declared types are
  those of the selected return type.
\<close>

theorem declared_types_set_before_read:
  assumes "targetUrl input \<noteq> []" and "fetch e = Some f"
    and "parse_headers e headersText = Inr hs"
    and "f (targetUrl input) (build_config meth hs payload) = Inr r"
    and "\<not> (status r = 0 \<and> type r = js ''opaque'')"
  shows "fst (snd (run e this input (meth, payload, headersText, returnType))) =
           this\<lparr>outputType := (if returnType = js ''Bytes'' then js ''byteArray'' else js ''string''),
                presentType := (if returnType = js ''Bytes'' then js ''byteArray'' else js ''string'')\<rparr>
         \<and> ((if returnType = js ''Bytes'' then isl (arrayBuffer r) else isl (text' r)) \<longrightarrow>
               isl (fst (run e this input (meth, payload, headersText, returnType)))
             \<and> snd (snd (run e this input (meth, payload, headersText, returnType))) =
                 [Call_fetch (targetUrl input) (build_config meth hs payload),
                  if returnType = js ''Bytes'' then Call_arrayBuffer else Call_text])"
proof (cases "returnType = js ''Bytes''")
  case True
  with assms show ?thesis
    by (cases "arrayBuffer r")
      (simp_all add: run_reaches_try try_block_bytes catch_block_Inl catch_block_Inr)
next
  case False
  with assms show ?thesis
    by (cases "text' r")
      (simp_all add: run_reaches_try try_block_text catch_block_Inl catch_block_Inr)
qed

text \<open>
  C9 at a response whose body cannot be read, asked for as bytes by an operation whose
  declared types were \<^verbatim>\<open>string\<close>: the call fails and the declared types are \<^verbatim>\<open>byteArray\<close>.
\<close>

theorem declared_types_set_before_read_witness:
  "fst (snd (run (example_env (Some (example_fetch (Inr example_unreadable)))) example_this
          (Some (js ''http://a'')) (js ''GET'', [], [], js ''Bytes'')))
     = \<lparr>outputType = js ''byteArray'', presentType = js ''byteArray''\<rparr>
   \<and> isl (fst (run (example_env (Some (example_fetch (Inr example_unreadable)))) example_this
          (Some (js ''http://a'')) (js ''GET'', [], [], js ''Bytes'')))
   \<and> snd (snd (run (example_env (Some (example_fetch (Inr example_unreadable)))) example_this
          (Some (js ''http://a'')) (js ''GET'', [], [], js ''Bytes'')))
     = [Call_fetch (js ''http://a'') (build_config (js ''GET'') [] []), Call_arrayBuffer]"
proof -
  let ?g = "example_fetch (Inr example_unreadable)"
  have ge: "fetch (example_env (Some ?g)) = Some ?g"
    by (rule example_fetch_of)
  have gh: "parse_headers (example_env (Some ?g)) [] = Inr []"
    by (rule example_no_headers)
  have r: "?g (targetUrl (Some (js ''http://a''))) (build_config (js ''GET'') [] [])
             = Inr example_unreadable"
    by (simp add: example_fetch_def)
  have nb: "\<not> (status example_unreadable = 0 \<and> type example_unreadable = js ''opaque'')"
    by (simp add: example_unreadable_def)
  have fails: "isl (arrayBuffer example_unreadable)"
    by (simp add: example_unreadable_def)
  show ?thesis
    using fails declared_types_set_before_read
      [where e = "example_env (Some ?g)" and f = ?g and input = "Some (js ''http://a'')"
         and headersText = "[]" and hs = "[]" and meth = "js ''GET''" and payload = "[]"
         and r = example_unreadable and returnType = "js ''Bytes''" and this = example_this,
       OF example_url_nonempty ge gh r nb]
    by (simp add: example_url example_this_def)
qed

text \<open>
  C10. When \<open>run\<close> fails before a response has passed the check for the blocked response,
  because \<^verbatim>\<open>fetch\<close> does not exist, a header line is not accepted, the call of \<^verbatim>\<open>fetch\<close>
  rejects, or the response is the blocked one, the operation's declared output type and
  presentation type are what they were before the call.
\<close>

theorem early_failure_keeps_declared_types:
  assumes "targetUrl input \<noteq> []"
    and "fetch e = None
         \<or> (\<exists>f. fetch e = Some f
               \<and> ((\<exists>err. parse_headers e headersText = Inl err)
                  \<or> (\<exists>hs. parse_headers e headersText = Inr hs
                        \<and> ((\<exists>err. f (targetUrl input) (build_config meth hs payload) = Inl err)
                           \<or> (\<exists>r. f (targetUrl input) (build_config meth hs payload) = Inr r
                                  \<and> status r = 0 \<and> type r = js ''opaque'')))))"
  shows "isl (fst (run e this input (meth, payload, headersText, returnType)))
         \<and> fst (snd (run e this input (meth, payload, headersText, returnType))) = this
         \<and> outputType (fst (snd (run e this input (meth, payload, headersText, returnType))))
             = outputType this
         \<and> presentType (fst (snd (run e this input (meth, payload, headersText, returnType))))
             = presentType this"
proof -
  have "isl (fst (run e this input (meth, payload, headersText, returnType)))
         \<and> fst (snd (run e this input (meth, payload, headersText, returnType))) = this"
    using assms(2)
  proof (elim disjE exE conjE)
    assume "fetch e = None"
    with assms(1) show ?thesis by (simp add: run_def)
  next
    fix f err
    assume "fetch e = Some f" "parse_headers e headersText = Inl err"
    with assms(1) show ?thesis by (simp add: run_headers_fail)
  next
    fix f hs err
    assume "fetch e = Some f" "parse_headers e headersText = Inr hs"
      "f (targetUrl input) (build_config meth hs payload) = Inl err"
    with assms(1) show ?thesis
      by (simp add: run_reaches_try try_block_rejected catch_block_Inl)
  next
    fix f hs r
    assume "fetch e = Some f" "parse_headers e headersText = Inr hs"
      "f (targetUrl input) (build_config meth hs payload) = Inr r"
      "status r = 0" "type r = js ''opaque''"
    with assms(1) show ?thesis
      by (simp add: run_reaches_try try_block_blocked catch_block_Inl)
  qed
  then show ?thesis by simp
qed

text \<open>
  C10 at an operation whose declared types are \<^verbatim>\<open>byteArray\<close> from an earlier call, asked
  for a string: without \<^verbatim>\<open>fetch\<close>, with a header line that has no colon, and with a transport
  that rejects.
\<close>

theorem early_failure_keeps_declared_types_witness:
  "fst (snd (run (example_env None) \<lparr>outputType = js ''byteArray'', presentType = js ''byteArray''\<rparr>
          (Some (js ''http://a'')) (js ''GET'', [], [], js ''String'')))
     = \<lparr>outputType = js ''byteArray'', presentType = js ''byteArray''\<rparr>
   \<and> fst (snd (run (example_env (Some (example_fetch (Inr example_ok))))
          \<lparr>outputType = js ''byteArray'', presentType = js ''byteArray''\<rparr>
          (Some (js ''http://a'')) (js ''GET'', [], js ''X-Foo'', js ''String'')))
     = \<lparr>outputType = js ''byteArray'', presentType = js ''byteArray''\<rparr>
   \<and> fst (snd (run (example_env (Some (example_fetch (Inl (Foreign (js ''TypeError: Failed to fetch''))))))
          \<lparr>outputType = js ''byteArray'', presentType = js ''byteArray''\<rparr>
          (Some (js ''http://a'')) (js ''GET'', [], [], js ''String'')))
     = \<lparr>outputType = js ''byteArray'', presentType = js ''byteArray''\<rparr>"
proof -
  let ?op = "\<lparr>outputType = js ''byteArray'', presentType = js ''byteArray''\<rparr>"
  let ?err = "Foreign (js ''TypeError: Failed to fetch'')"
  let ?ok = "example_fetch (Inr example_ok)"
  let ?rej = "example_fetch (Inl ?err)"
  have a: "fetch (example_env None) = None
         \<or> (\<exists>f. fetch (example_env None) = Some f
               \<and> ((\<exists>err. parse_headers (example_env None) [] = Inl err)
                  \<or> (\<exists>hs. parse_headers (example_env None) [] = Inr hs
                        \<and> ((\<exists>err. f (targetUrl (Some (js ''http://a''))) (build_config (js ''GET'') hs []) = Inl err)
                           \<or> (\<exists>r. f (targetUrl (Some (js ''http://a''))) (build_config (js ''GET'') hs []) = Inr r
                                  \<and> status r = 0 \<and> type r = js ''opaque'')))))"
    by (simp add: example_fetch_of)
  have bad: "parse_headers (example_env (Some ?ok)) (js ''X-Foo'')
               = Inl (OperationError (js ''Could not parse header in line: X-Foo''))"
    by code_simp
  have b: "fetch (example_env (Some ?ok)) = None
         \<or> (\<exists>f. fetch (example_env (Some ?ok)) = Some f
               \<and> ((\<exists>err. parse_headers (example_env (Some ?ok)) (js ''X-Foo'') = Inl err)
                  \<or> (\<exists>hs. parse_headers (example_env (Some ?ok)) (js ''X-Foo'') = Inr hs
                        \<and> ((\<exists>err. f (targetUrl (Some (js ''http://a''))) (build_config (js ''GET'') hs []) = Inl err)
                           \<or> (\<exists>r. f (targetUrl (Some (js ''http://a''))) (build_config (js ''GET'') hs []) = Inr r
                                  \<and> status r = 0 \<and> type r = js ''opaque'')))))"
    by (simp add: example_fetch_of bad)
  have c: "fetch (example_env (Some ?rej)) = None
         \<or> (\<exists>f. fetch (example_env (Some ?rej)) = Some f
               \<and> ((\<exists>err. parse_headers (example_env (Some ?rej)) [] = Inl err)
                  \<or> (\<exists>hs. parse_headers (example_env (Some ?rej)) [] = Inr hs
                        \<and> ((\<exists>err. f (targetUrl (Some (js ''http://a''))) (build_config (js ''GET'') hs []) = Inl err)
                           \<or> (\<exists>r. f (targetUrl (Some (js ''http://a''))) (build_config (js ''GET'') hs []) = Inr r
                                  \<and> status r = 0 \<and> type r = js ''opaque'')))))"
    by (simp add: example_fetch_of example_no_headers example_fetch_def)
  show ?thesis
    using early_failure_keeps_declared_types [OF example_url_nonempty a, of ?op "js ''String''"]
      early_failure_keeps_declared_types [OF example_url_nonempty b, of ?op "js ''String''"]
      early_failure_keeps_declared_types [OF example_url_nonempty c, of ?op "js ''String''"]
    by simp
qed

text \<open>
  C4, as the code has it. When every line of the header text is well formed and, unless it is
  blank, has a name that is an HTTP token and a value that is an HTTP header value (what
  \<^verbatim>\<open>headers.set\<close> accepts), parsing succeeds. The header set holds at most one header of each
  name (names compared without regard to case), and the value it gives for a name is the
  value of the last line, not blank, that carries the name, where name and value of a line
  are what stands before and after its first colon, both trimmed; blank lines contribute
  nothing. The line \<^verbatim>\<open>X-Foo:\<close> gives the header \<^verbatim>\<open>X-Foo\<close> with the empty value, and the lines
  \<^verbatim>\<open>A: 1\<close> and \<^verbatim>\<open>A: 2\<close> give the one header \<^verbatim>\<open>A\<close> with the value \<^verbatim>\<open>2\<close>.
\<close>

theorem accepted_headers_parsed:
  assumes "list_all well_formed_line (split_lines headersText)"
    and "list_all accepted_line (split_lines headersText)"
  shows "(\<exists>hs. parse_headers e headersText = Inr hs
            \<and> distinct (map (\<lambda>p. byteLowercase (fst p)) hs)
            \<and> (\<forall>n. header_list_get hs n = last_value (split_lines headersText) n))
       \<and> parse_headers e (js ''X-Foo:'') = Inr [(js ''X-Foo'', [])]
       \<and> parse_headers e (js ''A: 1\<newline>A: 2'') = Inr [(js ''A'', js ''2'')]"
proof -
  from assms have both:
    "list_all (\<lambda>l. well_formed_line l \<and> accepted_line l) (split_lines headersText)"
    by (simp add: list_all_iff)
  from forEach_well_formed [OF both, of e "[]"] obtain hs where
    hs: "forEach e [] (split_lines headersText) = Inr hs"
    and get: "\<forall>n. header_list_get hs n =
      (case last_value (split_lines headersText) n of
         None \<Rightarrow> header_list_get [] n | Some v \<Rightarrow> Some v)"
    by blast
  have "distinct (map (\<lambda>p. byteLowercase (fst p)) hs)"
    using forEach_distinct [OF both _ hs] by simp
  moreover have "header_list_get hs n = last_value (split_lines headersText) n" for n
    using get by (simp split: option.splits)
  moreover have "parse_headers e (js ''X-Foo:'') = Inr [(js ''X-Foo'', [])]"
    by code_simp
  moreover have "parse_headers e (js ''A: 1\<newline>A: 2'') = Inr [(js ''A'', js ''2'')]"
    by code_simp
  ultimately show ?thesis
    using hs by (simp add: parse_headers_def)
qed

text \<open>
  C4 at a header text of four lines: \<^verbatim>\<open>A: 1\<close>, a blank line, the same name in lower case
  with spaces around name and value, and a name with an empty value.
\<close>

theorem accepted_headers_parsed_witness:
  "list_all well_formed_line (split_lines (js ''A: 1\<newline>\<newline> a : 2 \<newline>B:''))
   \<and> list_all accepted_line (split_lines (js ''A: 1\<newline>\<newline> a : 2 \<newline>B:''))
   \<and> parse_headers (example_env None) (js ''A: 1\<newline>\<newline> a : 2 \<newline>B:'')
       = Inr [(js ''A'', js ''2''), (js ''B'', [])]
   \<and> header_list_get [(js ''A'', js ''2''), (js ''B'', [])] (js ''a'')
       = last_value (split_lines (js ''A: 1\<newline>\<newline> a : 2 \<newline>B:'')) (js ''a'')
   \<and> last_value (split_lines (js ''A: 1\<newline>\<newline> a : 2 \<newline>B:'')) (js ''a'') = Some (js ''2'')"
proof -
  let ?t = "js ''A: 1\<newline>\<newline> a : 2 \<newline>B:''"
  have wf: "list_all well_formed_line (split_lines ?t)"
    by code_simp
  have acc: "list_all accepted_line (split_lines ?t)"
    by code_simp
  have ph: "parse_headers (example_env None) ?t = Inr [(js ''A'', js ''2''), (js ''B'', [])]"
    by code_simp
  have lv: "last_value (split_lines ?t) (js ''a'') = Some (js ''2'')"
    by code_simp
  from accepted_headers_parsed [OF wf acc, of "example_env None"] ph
  have "header_list_get [(js ''A'', js ''2''), (js ''B'', [])] (js ''a'')
          = last_value (split_lines ?t) (js ''a'')"
    by auto
  with wf acc ph lv show ?thesis by simp
qed

text \<open>
  C4 as the specification states it, for every header text whose lines are well formed. The
  line \<^verbatim>\<open>A B: 1\<close> is well formed, with the name \<^verbatim>\<open>A B\<close> and the value \<^verbatim>\<open>1\<close>, but the name is
  not an HTTP token: \<^verbatim>\<open>headers.set\<close> throws a \<^verbatim>\<open>TypeError\<close>, no header set comes out, and
  \<open>run\<close> fails with that error before any request.
\<close>

theorem well_formed_headers_counterexample:
  "list_all well_formed_line (split_lines (js ''A B: 1''))
   \<and> header_name (js ''A B: 1'') = js ''A B''
   \<and> header_value (js ''A B: 1'') = js ''1''
   \<and> parse_headers (example_env (Some (example_fetch (Inr example_ok)))) (js ''A B: 1'')
       = Inl (Foreign (js ''TypeError: Invalid name''))
   \<and> run (example_env (Some (example_fetch (Inr example_ok)))) example_this
       (Some (js ''http://a'')) (js ''GET'', [], js ''A B: 1'', js ''String'')
       = (Inl (Foreign (js ''TypeError: Invalid name'')), example_this, [])"
proof -
  let ?e = "example_env (Some (example_fetch (Inr example_ok)))"
  have wf: "list_all well_formed_line (split_lines (js ''A B: 1''))"
    by code_simp
  have n: "header_name (js ''A B: 1'') = js ''A B''"
    by code_simp
  have v: "header_value (js ''A B: 1'') = js ''1''"
    by code_simp
  have ph: "parse_headers ?e (js ''A B: 1'') = Inl (Foreign (js ''TypeError: Invalid name''))"
    by code_simp
  have "run ?e example_this (Some (js ''http://a'')) (js ''GET'', [], js ''A B: 1'', js ''String'')
          = (Inl (Foreign (js ''TypeError: Invalid name'')), example_this, [])"
    using example_url_nonempty example_fetch_of ph by (rule run_headers_fail)
  with wf n v ph show ?thesis by simp
qed

end
